theory Spec2Isabelle
  imports Main "HOL-Library.Word"
begin

section \<open>The \<open>_mididings\<close> extension module (python\_module.cc)\<close>

text \<open>
  The source file registers the C++ core of mididings with the Python control layer.
  Its body is one registration block: a module-level function, one class binding per
  exposed C++ class, and a set of value converters. The block is embedded as the data
  it builds: every \<open>class_<...>(...)\<close> statement becomes one record, in source order,
  and the chained \<open>.def(...)\<close> calls become the list of members of that record.

  Reference and const qualifiers of constructor parameters are dropped
  (\<open>std::string const &\<close> is \<open>std_string\<close>); return value policies are not modelled.
\<close>

subsection \<open>Data model of the registration block\<close>

datatype cpp_type =
    bool_t
  | int_t
  | float_t
  | std_string
  | std_vector cpp_type
  | shared_ptr string
  | ModulePtr
  | ModuleVector
  | SysExData
  | bp_object

text \<open>The constructor argument of a binding: \<open>bp::no_init\<close> or \<open>init<...>()\<close>.\<close>

datatype init_spec = no_init | init "cpp_type list"

datatype operator = op_eq | op_ne

text \<open>
  A member added to a class binding: \<open>.def(name, &target)\<close>,
  \<open>.def_readwrite(name, &field)\<close>, or \<open>.def(bp::self OP bp::self)\<close>.
\<close>

datatype member =
    def_method string string
  | def_readwrite string string
  | def_operator operator

text \<open>
  One \<open>class_<W, [HeldType], [bases<...>], [noncopyable]>(name, ctor)\<close> statement.
  \<open>scope\<close> is the enclosing \<open>bp::scope\<close>, if any: the module classes are
  registered inside the scope of \<open>Patch\<close>.
\<close>

record class_binding =
  wrapped :: string
  held_type :: "string option"
  bases :: "string list"
  noncopyable :: bool
  scope :: "string option"
  py_name :: string
  ctor :: init_spec
  members :: "member list"
  pickling :: bool

datatype converter =
    vector_converters string
  | map_converters string string
  | enum_converters string

record py_module =
  module_defs :: "member list"
  classes :: "class_binding list"
  converters :: "converter list"

text \<open>A binding with no chained calls.\<close>

definition plain_class ::
  "string \<Rightarrow> string list \<Rightarrow> string option \<Rightarrow> string \<Rightarrow> init_spec \<Rightarrow> class_binding" where
  "plain_class w bs sc n c =
     \<lparr>wrapped = w, held_type = None, bases = bs, noncopyable = True, scope = sc,
      py_name = n, ctor = c, members = [], pickling = False\<rparr>"

subsection \<open>The bindings, in source order\<close>

text \<open>
  The engine class. \<open>ENABLE_TEST\<close> comes from \<open>config.hh\<close>, which is not part of the
  file; it is a parameter of the model.
\<close>

definition Engine_class :: "bool \<Rightarrow> class_binding" where
  "Engine_class ENABLE_TEST =
     \<lparr>wrapped = ''Engine'', held_type = Some ''EngineWrap'', bases = [],
      noncopyable = True, scope = None, py_name = ''Engine'',
      ctor = init [std_string, std_string, std_vector std_string,
                   std_vector std_string, bool_t],
      members =
        [def_method ''connect_ports'' ''Engine::connect_ports'',
         def_method ''add_scene'' ''Engine::add_scene'',
         def_method ''set_processing'' ''Engine::set_processing'',
         def_method ''start'' ''Engine::start'',
         def_method ''switch_scene'' ''Engine::switch_scene'',
         def_method ''current_scene'' ''Engine::current_scene'',
         def_method ''current_subscene'' ''Engine::current_subscene'',
         def_method ''output_event'' ''Engine::output_event'',
         def_method ''time'' ''Engine::time'']
        @ (if ENABLE_TEST then [def_method ''process'' ''Engine::process_test''] else []),
      pickling = False\<rparr>"

definition Patch_classes :: "class_binding list" where
  "Patch_classes =
     [plain_class ''Patch'' [] None ''Patch'' (init [ModulePtr]),
      plain_class ''Patch::Module'' [] (Some ''Patch'') ''Module'' no_init,
      plain_class ''Patch::Chain'' [''Patch::Module''] (Some ''Patch'') ''Chain''
        (init [ModuleVector]),
      plain_class ''Patch::Fork'' [''Patch::Module''] (Some ''Patch'') ''Fork''
        (init [ModuleVector, bool_t]),
      plain_class ''Patch::Single'' [''Patch::Module''] (Some ''Patch'') ''Single''
        (init [shared_ptr ''Unit'']),
      plain_class ''Patch::Extended'' [''Patch::Module''] (Some ''Patch'') ''Extended''
        (init [shared_ptr ''UnitEx''])]"

text \<open>
  The event class: no \<open>noncopyable\<close>, no explicit constructor argument (Boost.Python
  then exposes the default constructor), pickling enabled.
\<close>

definition MidiEvent_class :: class_binding where
  "MidiEvent_class =
     \<lparr>wrapped = ''MidiEvent'', held_type = None, bases = [],
      noncopyable = False, scope = None, py_name = ''MidiEvent'',
      ctor = init [],
      members =
        [def_readwrite ''type'' ''MidiEvent::type'',
         def_readwrite ''port_'' ''MidiEvent::port'',
         def_readwrite ''channel_'' ''MidiEvent::channel'',
         def_readwrite ''data1'' ''MidiEvent::data1'',
         def_readwrite ''data2'' ''MidiEvent::data2'',
         def_method ''_get_sysex_data'' ''MidiEvent::get_sysex_data'',
         def_method ''_set_sysex_data'' ''MidiEvent::set_sysex_data'',
         def_operator op_eq,
         def_operator op_ne],
      pickling = True\<rparr>"

definition Unit_classes :: "class_binding list" where
  "Unit_classes =
     [plain_class ''Unit'' [] None ''Unit'' no_init,
      plain_class ''UnitEx'' [] None ''UnitEx'' no_init,
      plain_class ''Filter'' [''Unit''] None ''Filter'' no_init,
      plain_class ''Pass'' [''Unit''] None ''Pass'' (init [bool_t]),
      plain_class ''TypeFilter'' [''Filter''] None ''TypeFilter'' (init [int_t]),
      plain_class ''InvertedFilter'' [''Filter''] None ''InvertedFilter''
        (init [shared_ptr ''Filter'', bool_t]),
      plain_class ''PortFilter'' [''Filter''] None ''PortFilter'' (init [std_vector int_t]),
      plain_class ''ChannelFilter'' [''Filter''] None ''ChannelFilter''
        (init [std_vector int_t]),
      plain_class ''KeyFilter'' [''Filter''] None ''KeyFilter''
        (init [int_t, int_t, std_vector int_t]),
      plain_class ''VelocityFilter'' [''Filter''] None ''VelocityFilter''
        (init [int_t, int_t]),
      plain_class ''CtrlFilter'' [''Filter''] None ''CtrlFilter'' (init [std_vector int_t]),
      plain_class ''CtrlValueFilter'' [''Filter''] None ''CtrlValueFilter''
        (init [int_t, int_t]),
      plain_class ''ProgramFilter'' [''Filter''] None ''ProgramFilter''
        (init [std_vector int_t]),
      plain_class ''SysExFilter'' [''Filter''] None ''SysExFilter''
        (init [SysExData, bool_t]),
      plain_class ''Port'' [''Unit''] None ''Port'' (init [int_t]),
      plain_class ''Channel'' [''Unit''] None ''Channel'' (init [int_t]),
      plain_class ''Transpose'' [''Unit''] None ''Transpose'' (init [int_t]),
      plain_class ''Velocity'' [''Unit''] None ''Velocity'' (init [float_t, int_t]),
      plain_class ''VelocitySlope'' [''Unit''] None ''VelocitySlope''
        (init [std_vector int_t, std_vector float_t, int_t]),
      plain_class ''CtrlMap'' [''Unit''] None ''CtrlMap'' (init [int_t, int_t]),
      plain_class ''CtrlRange'' [''Unit''] None ''CtrlRange''
        (init [int_t, int_t, int_t, int_t, int_t]),
      plain_class ''CtrlCurve'' [''Unit''] None ''CtrlCurve'' (init [int_t, float_t, int_t]),
      plain_class ''PitchbendRange'' [''Unit''] None ''PitchbendRange''
        (init [int_t, int_t, int_t, int_t]),
      plain_class ''Generator'' [''Unit''] None ''Generator''
        (init [int_t, int_t, int_t, int_t, int_t]),
      plain_class ''SysExGenerator'' [''Unit''] None ''SysExGenerator''
        (init [int_t, SysExData]),
      plain_class ''Sanitize'' [''UnitEx''] None ''Sanitize'' (init []),
      plain_class ''SceneSwitch'' [''UnitEx''] None ''SceneSwitch'' (init [int_t, int_t]),
      plain_class ''SubSceneSwitch'' [''UnitEx''] None ''SubSceneSwitch''
        (init [int_t, int_t, bool_t]),
      plain_class ''Call'' [''UnitEx''] None ''Call'' (init [bp_object, bool_t, bool_t])]"

definition mididings_module :: "bool \<Rightarrow> py_module" where
  "mididings_module ENABLE_TEST =
     \<lparr>module_defs = [def_method ''available_backends'' ''Backend::available''],
      classes = Engine_class ENABLE_TEST # Patch_classes @ MidiEvent_class # Unit_classes,
      converters =
        [vector_converters ''int'', vector_converters ''unsigned char'',
         vector_converters ''float'', vector_converters ''std::string'',
         vector_converters ''MidiEvent'', vector_converters ''Patch::ModulePtr'',
         map_converters ''std::string'' ''std::vector<std::string>'',
         enum_converters ''MidiEventType'']\<rparr>"

subsection \<open>Reading the registration block\<close>

text \<open>The binding registered under a Python name (the first one, in source order).\<close>

definition class_named :: "py_module \<Rightarrow> string \<Rightarrow> class_binding option" where
  "class_named m n = find (\<lambda>c. py_name c = n) (classes m)"

text \<open>The Python-visible name of a member.\<close>

fun member_name :: "member \<Rightarrow> string" where
  "member_name (def_method n _) = n"
| "member_name (def_readwrite n _) = n"
| "member_name (def_operator op_eq) = ''__eq__''"
| "member_name (def_operator op_ne) = ''__ne__''"

fun is_method :: "member \<Rightarrow> bool" where
  "is_method (def_method _ _) = True"
| "is_method _ = False"

text \<open>The operations of a class: the names of its \<open>.def\<close> methods.\<close>

definition operations :: "class_binding \<Rightarrow> string list" where
  "operations c = map member_name (filter is_method (members c))"

text \<open>
  A class can be instantiated from Python iff its binding has an \<open>init\<close>; with
  \<open>bp::no_init\<close> the Python constructor raises.
\<close>

fun constructible :: "class_binding \<Rightarrow> bool" where
  "constructible c = (case ctor c of no_init \<Rightarrow> False | init _ \<Rightarrow> True)"

text \<open>The bindings that name a given C++ class among their \<open>bases<...>\<close>.\<close>

definition derived_from :: "py_module \<Rightarrow> string \<Rightarrow> class_binding list" where
  "derived_from m b = filter (\<lambda>c. b \<in> set (bases c)) (classes m)"

text \<open>The constructor signature of a class, by Python name.\<close>

definition signature :: "py_module \<Rightarrow> string \<Rightarrow> init_spec option" where
  "signature m n = map_option ctor (class_named m n)"

text \<open>The operations of the class registered under a Python name.\<close>

definition class_operations :: "py_module \<Rightarrow> string \<Rightarrow> string list option" where
  "class_operations m n = map_option operations (class_named m n)"

text \<open>The parameter types of a constructor; \<open>bp::no_init\<close> has none.\<close>

fun init_args :: "init_spec \<Rightarrow> cpp_type list" where
  "init_args no_init = []"
| "init_args (init ts) = ts"

section \<open>The engine wrapper \<open>EngineWrap\<close>\<close>

subsection \<open>Python objects as seen from C++\<close>

text \<open>
  What the wrapper needs of the Python side: an object answers attribute lookups by
  name, and an attribute can be called with a list of arguments; the call returns or
  raises. The two arguments of the notification are C++ \<open>int\<close>s converted to Python
  integers, so an argument is an \<open>int\<close>. The value returned by the Python code is
  dropped by \<open>call_method<void>\<close> and is not modelled.
\<close>

text \<open>
  Python exceptions: the AttributeError of a failed lookup, SystemExit (what
  \<open>sys.exit()\<close> raises), and any other exception, by name.
\<close>

datatype py_exception = AttributeError string | SystemExit | Exception string

datatype py_result = Returned | Raises py_exception

type_synonym py_callable = "int list \<Rightarrow> py_result"

type_synonym PyObject = "string \<rightharpoonup> py_callable"

text \<open>
  An instance of an exposed class, or of a Python subclass of it. \<open>defined\<close> holds the
  attributes supplied by Python code (the subclass body or the instance dictionary);
  they are found first. Otherwise the members of the binding are found, with
  \<open>bound\<close> giving the behaviour of the C++ functions behind them. Any other name is
  not an attribute.
\<close>

definition instance_of ::
  "class_binding \<Rightarrow> (string \<Rightarrow> py_callable) \<Rightarrow> (string \<rightharpoonup> py_callable) \<Rightarrow> PyObject" where
  "instance_of c bound defined n =
     (case defined n of
        Some f \<Rightarrow> Some f
      | None \<Rightarrow> if n \<in> set (map member_name (members c)) then Some (bound n) else None)"

subsection \<open>Interpreter state and the calls the wrapper makes\<close>

datatype action =
    gil_acquire
  | gil_release
  | py_call_method string "int list"
  | err_print py_exception
  | patch_evaluate int

text \<open>
  The part of the interpreter the wrapper touches: the pending Python error (the error
  indicator) and, as a log, the order of lock operations, calls into Python and printed
  errors. The engine adds an entry to the same log for every evaluation of a patch,
  naming the scene whose patch it is.
\<close>

record interp =
  error_indicator :: "py_exception option"
  log :: "action list"

datatype cpp_exception = error_already_set | other_exception string

text \<open>
  How a C++ function ends: it returns, an exception leaves it, or the process ends
  inside it.
\<close>

datatype outcome = returns | throws cpp_exception | process_exit

definition record_action :: "action \<Rightarrow> interp \<Rightarrow> interp" where
  "record_action a s = s\<lparr>log := log s @ [a]\<rparr>"

text \<open>
  Modelled from the spec: \<open>das::scoped_gil_lock\<close> of util/python.hh, which is not part of
  the file. The control lock is acquired where the guard object is declared and
  released where its scope ends.
\<close>

definition scoped_gil_lock :: "interp \<Rightarrow> interp" where
  "scoped_gil_lock s = record_action gil_acquire s"

definition scoped_gil_lock_end :: "interp \<Rightarrow> interp" where
  "scoped_gil_lock_end s = record_action gil_release s"

text \<open>
  \<open>boost::python::call_method<void>(obj, name, args...)\<close>: looks the attribute up and
  calls it. A failed lookup and an exception raised by the callee both leave the Python
  error set and surface in C++ as \<open>error_already_set\<close>.
\<close>

definition call_method ::
  "PyObject \<Rightarrow> string \<Rightarrow> int list \<Rightarrow> interp \<Rightarrow> cpp_exception option \<times> interp" where
  "call_method obj name args s =
     (let s' = record_action (py_call_method name args) s in
      case obj name of
        None \<Rightarrow> (Some error_already_set, s'\<lparr>error_indicator := Some (AttributeError name)\<rparr>)
      | Some f \<Rightarrow>
          (case f args of
             Returned \<Rightarrow> (None, s')
           | Raises e \<Rightarrow> (Some error_already_set, s'\<lparr>error_indicator := Some e\<rparr>)))"

text \<open>
  \<open>PyErr_Print()\<close>, as the interpreter documents it: with no error pending it does
  nothing; a pending SystemExit is not printed, the interpreter exits the process
  instead and the call does not return (\<open>None\<close>); any other pending error is printed
  and cleared. The interpreter's inspect flag, which suppresses the exit, is taken as
  unset, its default.
\<close>

definition PyErr_Print :: "interp \<Rightarrow> interp option" where
  "PyErr_Print s =
     (case error_indicator s of
        None \<Rightarrow> Some s
      | Some e \<Rightarrow>
          if e = SystemExit then None
          else Some ((record_action (err_print e) s)\<lparr>error_indicator := None\<rparr>))"

subsection \<open>The wrapper class\<close>

text \<open>
  \<open>EngineWrap\<close> derives from \<open>Engine\<close> and adds the field \<open>_self\<close>. The base class is
  declared in engine.hh, which is not part of the file; the base part of the object is
  represented by the arguments its constructor receives.
\<close>

record Engine_base =
  backend_name :: string
  client_name :: string
  in_ports :: "string list"
  out_ports :: "string list"
  verbose :: bool

record EngineWrap = Engine_base +
  self :: PyObject

definition EngineWrap_init ::
  "PyObject \<Rightarrow> string \<Rightarrow> string \<Rightarrow> string list \<Rightarrow> string list \<Rightarrow> bool \<Rightarrow> EngineWrap" where
  "EngineWrap_init slf bn cn ip op v =
     \<lparr>backend_name = bn, client_name = cn, in_ports = ip, out_ports = op, verbose = v,
      self = slf\<rparr>"

text \<open>
  \<open>EngineWrap::scene_switch_callback\<close>. The result is how the function ends and the
  interpreter state then. The \<open>catch\<close> clause handles \<open>error_already_set\<close> only, by
  calling \<open>PyErr_Print\<close>; the guard's scope ends when the function returns and when an
  exception leaves it, but not when the process ends inside \<open>PyErr_Print\<close>.
\<close>

definition scene_switch_callback ::
  "EngineWrap \<Rightarrow> int \<Rightarrow> int \<Rightarrow> interp \<Rightarrow> outcome \<times> interp" where
  "scene_switch_callback this scene subscene s =
     (let gil = scoped_gil_lock s;
          (thrown, s1) = call_method (self this) ''scene_switch_callback'' [scene, subscene] gil
      in case thrown of
           None \<Rightarrow> (returns, scoped_gil_lock_end s1)
         | Some error_already_set \<Rightarrow>
             (case PyErr_Print s1 of
                None \<Rightarrow> (process_exit, s1)
              | Some s2 \<Rightarrow> (returns, scoped_gil_lock_end s2))
         | Some x \<Rightarrow> (throws x, scoped_gil_lock_end s1))"

section \<open>Events\<close>

text \<open>
  Modelled from the spec: the class \<open>MidiEvent\<close> of midi\_event.hh, which is not part of
  the file. An event is a record of type, port, channel, data1, data2 and the sysex byte
  sequence. The enumeration of event types is not part of the file either and is a
  type parameter. The binding reads and writes the sysex bytes as a vector of
  \<open>unsigned char\<close>.
\<close>

record 'ty MidiEvent =
  type :: 'ty
  port :: int
  channel :: int
  data1 :: int
  data2 :: int
  sysex :: "8 word list"

text \<open>The values that cross the boundary for an event's fields.\<close>

datatype 'ty py_value = py_enum 'ty | py_int int | py_bytes "8 word list"

text \<open>
  Modelled from the spec: the flat-field serialization of an event and its inverse. The
  binding only enables pickling; the functions that produce and consume the field list
  belong to the Python layer and are not part of the file. The field list is
  (type, port, channel, data1, data2, sysex bytes). A list of another shape, or with a
  value of the wrong kind in some position, is rejected.
\<close>

definition serialize :: "'ty MidiEvent \<Rightarrow> 'ty py_value list" where
  "serialize e =
     [py_enum (type e), py_int (port e), py_int (channel e), py_int (data1 e),
      py_int (data2 e), py_bytes (sysex e)]"

fun deserialize :: "'ty py_value list \<Rightarrow> 'ty MidiEvent option" where
  "deserialize [py_enum t, py_int p, py_int c, py_int d1, py_int d2, py_bytes b] =
     Some \<lparr>type = t, port = p, channel = c, data1 = d1, data2 = d2, sysex = b\<rparr>"
| "deserialize _ = None"

text \<open>
  Modelled from the spec: \<open>operator==\<close> and \<open>operator!=\<close> on \<open>MidiEvent\<close> (midi\_event.hh,
  not part of the file), which the binding exposes as \<open>__eq__\<close> and \<open>__ne__\<close>. Equality
  compares type, port, channel, data1, data2 and the sysex bytes.
\<close>

definition operator_eq :: "'ty MidiEvent \<Rightarrow> 'ty MidiEvent \<Rightarrow> bool" where
  "operator_eq lhs rhs =
     (type lhs = type rhs \<and> port lhs = port rhs \<and> channel lhs = channel rhs \<and>
      data1 lhs = data1 rhs \<and> data2 lhs = data2 rhs \<and> sysex lhs = sysex rhs)"

definition operator_ne :: "'ty MidiEvent \<Rightarrow> 'ty MidiEvent \<Rightarrow> bool" where
  "operator_ne lhs rhs = (\<not> operator_eq lhs rhs)"

section \<open>Control units\<close>

text \<open>
  The C++ values a constructor receives once Boost.Python has converted the Python
  arguments (the conversion itself is not modelled): an \<open>int\<close>, a \<open>bool\<close>, a Python
  object, or a value of another parameter type, whose content is not modelled.
\<close>

datatype cpp_value = v_int int | v_bool bool | v_object PyObject | v_other cpp_type

fun has_type :: "cpp_value \<Rightarrow> cpp_type \<Rightarrow> bool" where
  "has_type (v_int i) t = (t = int_t)"
| "has_type (v_bool b) t = (t = bool_t)"
| "has_type (v_object obj) t = (t = bp_object)"
| "has_type (v_other u) t = (t = u \<and> u \<noteq> int_t \<and> u \<noteq> bool_t \<and> u \<noteq> bp_object)"

text \<open>
  Modelled from the spec: the classes \<open>SceneSwitch\<close> and \<open>SubSceneSwitch\<close>
  (units/engine.hh) and \<open>Call\<close> (units/call.hh) with their constructors, which are not
  part of the file. The spec names the parameters, in this order:
  \<open>SceneSwitch(scene_offset_or_absolute, subscene_policy)\<close>,
  \<open>SubSceneSwitch(subscene_offset_or_absolute, subscene_policy, init_flag)\<close>,
  \<open>Call(handler_reference, run_async_flag, expect_return_events_flag)\<close>.
  Each constructor stores its arguments under these names.
\<close>

record SceneSwitch =
  scene_offset_or_absolute :: int
  scene_subscene_policy :: int

record SubSceneSwitch =
  subscene_offset_or_absolute :: int
  subscene_policy :: int
  init_flag :: bool

record Call =
  handler_reference :: PyObject
  run_async_flag :: bool
  expect_return_events_flag :: bool

definition SceneSwitch_init :: "int \<Rightarrow> int \<Rightarrow> SceneSwitch" where
  "SceneSwitch_init target policy =
     \<lparr>scene_offset_or_absolute = target, scene_subscene_policy = policy\<rparr>"

definition SubSceneSwitch_init :: "int \<Rightarrow> int \<Rightarrow> bool \<Rightarrow> SubSceneSwitch" where
  "SubSceneSwitch_init target policy flag =
     \<lparr>subscene_offset_or_absolute = target, subscene_policy = policy, init_flag = flag\<rparr>"

definition Call_init :: "PyObject \<Rightarrow> bool \<Rightarrow> bool \<Rightarrow> Call" where
  "Call_init handler run_async expect_return =
     \<lparr>handler_reference = handler, run_async_flag = run_async,
      expect_return_events_flag = expect_return\<rparr>"

text \<open>An object created through the interface; only the control units are detailed.\<close>

datatype exposed_object =
    obj_SceneSwitch SceneSwitch
  | obj_SubSceneSwitch SubSceneSwitch
  | obj_Call Call
  | obj_other string "cpp_value list"

text \<open>
  The C++ constructor behind a binding, by the name of the wrapped class. The arguments
  are passed in the order given.
\<close>

definition construct_wrapped :: "string \<Rightarrow> cpp_value list \<Rightarrow> exposed_object option" where
  "construct_wrapped w args =
     (if w = ''SceneSwitch'' then
        (case args of
           [v_int a, v_int b] \<Rightarrow> Some (obj_SceneSwitch (SceneSwitch_init a b))
         | _ \<Rightarrow> None)
      else if w = ''SubSceneSwitch'' then
        (case args of
           [v_int a, v_int b, v_bool c] \<Rightarrow> Some (obj_SubSceneSwitch (SubSceneSwitch_init a b c))
         | _ \<Rightarrow> None)
      else if w = ''Call'' then
        (case args of
           [v_object h, v_bool a, v_bool b] \<Rightarrow> Some (obj_Call (Call_init h a b))
         | _ \<Rightarrow> None)
      else Some (obj_other w args))"

datatype py_error = NameError | RuntimeError | ArgumentError

text \<open>
  Calling an exposed class from Python: the class must be registered, must have an
  \<open>init\<close>, and the arguments must match the registered parameter types one by one;
  then the constructor of the wrapped class runs on them.
\<close>

definition construct :: "py_module \<Rightarrow> string \<Rightarrow> cpp_value list \<Rightarrow> py_error + exposed_object" where
  "construct m n args =
     (case class_named m n of
        None \<Rightarrow> Inl NameError
      | Some c \<Rightarrow>
          (case ctor c of
             no_init \<Rightarrow> Inl RuntimeError
           | init ts \<Rightarrow>
               if list_all2 has_type args ts then
                 (case construct_wrapped (wrapped c) args of
                    None \<Rightarrow> Inl ArgumentError
                  | Some obj \<Rightarrow> Inr obj)
               else Inl ArgumentError))"

section \<open>The dispatch path of the engine\<close>

text \<open>
  Modelled from the spec: patches, scenes and \<open>Engine::process\<close> (patch.hh, engine.hh and
  their implementation, which are not part of the file). A patch is represented by what
  its evaluation yields for an event: the output events and the scene switch
  signalled during the evaluation, if any. An init patch runs without an input event
  and is represented by the events it yields. A scene has a patch and optionally an
  init patch.
\<close>

type_synonym 'ty Patch = "'ty MidiEvent \<Rightarrow> 'ty MidiEvent list \<times> (int \<times> int) option"

record 'ty Scene =
  scene_patch :: "'ty Patch"
  scene_init_patch :: "'ty MidiEvent list option"

record Engine_state =
  current_scene :: int
  current_subscene :: int
  processing_enabled :: bool

text \<open>
  Modelled from the spec: \<open>process(event)\<close> looks up the patch of the current scene,
  evaluates it, takes the output events, and, if a switch was signalled to a
  registered scene, makes that scene current, runs its init patch if present and
  invokes the notification with the new scene and subscene. With processing disabled
  the event is dropped without evaluation; a switch to an unregistered scene leaves
  the state unchanged. The result is how the call ends, the events to send, the engine
  state and the interpreter state.
\<close>

definition process ::
  "EngineWrap \<Rightarrow> (int \<rightharpoonup> 'ty Scene) \<Rightarrow> 'ty MidiEvent \<Rightarrow> Engine_state \<Rightarrow> interp
     \<Rightarrow> outcome \<times> 'ty MidiEvent list \<times> Engine_state \<times> interp" where
  "process this scenes ev st s =
     (if processing_enabled st then
        (case scenes (current_scene st) of
           None \<Rightarrow> (returns, [], st, s)
         | Some sc \<Rightarrow>
             (let s1 = record_action (patch_evaluate (current_scene st)) s;
                  (out, switch) = scene_patch sc ev
              in case switch of
                   None \<Rightarrow> (returns, out, st, s1)
                 | Some (n, sub) \<Rightarrow>
                     (case scenes n of
                        None \<Rightarrow> (returns, out, st, s1)
                      | Some target \<Rightarrow>
                          (let st' = st\<lparr>current_scene := n, current_subscene := sub\<rparr>;
                               (init_out, s2) =
                                 (case scene_init_patch target of
                                    None \<Rightarrow> ([], s1)
                                  | Some evs \<Rightarrow> (evs, record_action (patch_evaluate n) s1));
                               (res, s3) = scene_switch_callback this n sub s2
                           in (res, out @ init_out, st', s3)))))
      else (returns, [], st, s))"

subsection \<open>The control lock along a log\<close>

text \<open>
  Whether the control lock is held after a log, given whether it was held before, and
  whether every patch evaluation in a log happens while the lock is not held.
\<close>

fun held_after :: "bool \<Rightarrow> action list \<Rightarrow> bool" where
  "held_after held [] = held"
| "held_after held (gil_acquire # as) = held_after True as"
| "held_after held (gil_release # as) = held_after False as"
| "held_after held (a # as) = held_after held as"

fun no_patch_under_lock :: "bool \<Rightarrow> action list \<Rightarrow> bool" where
  "no_patch_under_lock held [] = True"
| "no_patch_under_lock held (gil_acquire # as) = no_patch_under_lock True as"
| "no_patch_under_lock held (gil_release # as) = no_patch_under_lock False as"
| "no_patch_under_lock held (patch_evaluate n # as) =
     (\<not> held \<and> no_patch_under_lock held as)"
| "no_patch_under_lock held (a # as) = no_patch_under_lock held as"

section \<open>Properties of the registration block\<close>

lemmas binding_defs =
  mididings_module_def Engine_class_def Patch_classes_def MidiEvent_class_def
  Unit_classes_def plain_class_def

lemma Engine_registered:
  "class_named (mididings_module t) ''Engine'' = Some (Engine_class t)"
  by (simp add: class_named_def mididings_module_def Engine_class_def)

lemma Engine_operations:
  "operations (Engine_class t) =
     [''connect_ports'', ''add_scene'', ''set_processing'', ''start'', ''switch_scene'',
      ''current_scene'', ''current_subscene'', ''output_event'', ''time'']
     @ (if t then [''process''] else [])"
  by (simp add: operations_def Engine_class_def)

subsection \<open>The engine interface\<close>

text \<open>
  C1, as stated, fails in a build with \<open>ENABLE_TEST\<close>: the module does provide
  \<open>available_backends\<close> and the five-parameter constructor, but the set of operations
  of \<open>Engine\<close> is then not the nine listed ones, since \<open>process\<close> is registered too.
\<close>

theorem Engine_operation_set_counterexample:
  "\<not> (map member_name (module_defs (mididings_module True)) = [''available_backends'']
      \<and> signature (mididings_module True) ''Engine''
          = Some (init [std_string, std_string, std_vector std_string,
                        std_vector std_string, bool_t])
      \<and> map_option set (class_operations (mididings_module True) ''Engine'')
          = Some {''connect_ports'', ''add_scene'', ''set_processing'', ''start'',
                  ''switch_scene'', ''current_scene'', ''current_subscene'',
                  ''output_event'', ''time''})"
proof
  assume claim:
    "map member_name (module_defs (mididings_module True)) = [''available_backends'']
      \<and> signature (mididings_module True) ''Engine''
          = Some (init [std_string, std_string, std_vector std_string,
                        std_vector std_string, bool_t])
      \<and> map_option set (class_operations (mididings_module True) ''Engine'')
          = Some {''connect_ports'', ''add_scene'', ''set_processing'', ''start'',
                  ''switch_scene'', ''current_scene'', ''current_subscene'',
                  ''output_event'', ''time''}"
  have "''process'' \<in> set (operations (Engine_class True))"
    by (simp add: Engine_operations)
  with claim have
    "''process'' \<in> {''connect_ports'', ''add_scene'', ''set_processing'', ''start'',
                    ''switch_scene'', ''current_scene'', ''current_subscene'',
                    ''output_event'', ''time''}"
    by (simp add: class_operations_def Engine_registered)
  then show False by simp
qed

text \<open>
  C1, amended: the module provides \<open>available_backends\<close> and an \<open>Engine\<close> type whose
  constructor takes (backend name, client name, input port names, output port names,
  verbose flag); the operations of \<open>Engine\<close> are connect\_ports, add\_scene,
  set\_processing, start, switch\_scene, current\_scene, current\_subscene, output\_event
  and time, and in a build with \<open>ENABLE_TEST\<close> also process, and no others.
\<close>

theorem Engine_interface:
  "map member_name (module_defs (mididings_module t)) = [''available_backends'']
   \<and> signature (mididings_module t) ''Engine''
       = Some (init [std_string, std_string, std_vector std_string,
                     std_vector std_string, bool_t])
   \<and> class_operations (mididings_module t) ''Engine''
       = Some ([''connect_ports'', ''add_scene'', ''set_processing'', ''start'',
                ''switch_scene'', ''current_scene'', ''current_subscene'',
                ''output_event'', ''time'']
               @ (if t then [''process''] else []))"
proof -
  have "map member_name (module_defs (mididings_module t)) = [''available_backends'']"
    by (simp add: mididings_module_def)
  moreover have "signature (mididings_module t) ''Engine''
       = Some (init [std_string, std_string, std_vector std_string,
                     std_vector std_string, bool_t])"
    by (simp add: signature_def Engine_registered) (simp add: Engine_class_def)
  moreover have "class_operations (mididings_module t) ''Engine''
       = Some ([''connect_ports'', ''add_scene'', ''set_processing'', ''start'',
                ''switch_scene'', ''current_scene'', ''current_subscene'',
                ''output_event'', ''time'']
               @ (if t then [''process''] else []))"
    by (simp only: class_operations_def Engine_registered option.map Engine_operations)
  ultimately show ?thesis by blast
qed

text \<open>
  C4, as stated, fails in a build without \<open>ENABLE_TEST\<close>: no operation named
  \<open>process\<close> is registered on \<open>Engine\<close>.
\<close>

theorem process_exposed_counterexample:
  "class_named (mididings_module False) ''Engine'' = Some (Engine_class False)
   \<and> ''process'' \<notin> set (operations (Engine_class False))"
  by (simp add: Engine_registered Engine_operations)

text \<open>
  C4, amended: \<open>process\<close> is exposed on \<open>Engine\<close>, bound to \<open>Engine::process_test\<close>,
  exactly in a build with \<open>ENABLE_TEST\<close>.
\<close>

theorem process_exposed_iff_ENABLE_TEST:
  "(def_method ''process'' ''Engine::process_test'' \<in> set (members (Engine_class t))) = t
   \<and> (''process'' \<in> set (operations (Engine_class t))) = t
   \<and> class_named (mididings_module t) ''Engine'' = Some (Engine_class t)"
proof (cases t)
  case True
  then show ?thesis
    by (simp add: Engine_registered Engine_operations) (simp add: Engine_class_def)
next
  case False
  then show ?thesis
    by (simp add: Engine_registered Engine_operations) (simp add: Engine_class_def)
qed

subsection \<open>Module and unit classes\<close>

text \<open>
  C7: the classes derived from \<open>Patch::Module\<close> are Chain, Fork, Single and Extended;
  each can be constructed, Chain from a vector of modules, Fork from a vector of
  modules and a flag, Single from one shared Unit, Extended from one shared UnitEx. The
  classes that cannot be instantiated are exactly the bases Module, Unit, UnitEx and
  Filter.
\<close>

theorem Module_variants:
  "map py_name (derived_from (mididings_module t) ''Patch::Module'')
     = [''Chain'', ''Fork'', ''Single'', ''Extended'']
   \<and> map (\<lambda>c. (py_name c, ctor c))
         (filter constructible (derived_from (mididings_module t) ''Patch::Module''))
     = [(''Chain'', init [ModuleVector]),
        (''Fork'', init [ModuleVector, bool_t]),
        (''Single'', init [shared_ptr ''Unit'']),
        (''Extended'', init [shared_ptr ''UnitEx''])]
   \<and> map py_name (filter (\<lambda>c. \<not> constructible c) (classes (mididings_module t)))
     = [''Module'', ''Unit'', ''UnitEx'', ''Filter'']"
proof -
  have derived: "derived_from (mididings_module t) ''Patch::Module'' =
      [plain_class ''Patch::Chain'' [''Patch::Module''] (Some ''Patch'') ''Chain''
         (init [ModuleVector]),
       plain_class ''Patch::Fork'' [''Patch::Module''] (Some ''Patch'') ''Fork''
         (init [ModuleVector, bool_t]),
       plain_class ''Patch::Single'' [''Patch::Module''] (Some ''Patch'') ''Single''
         (init [shared_ptr ''Unit'']),
       plain_class ''Patch::Extended'' [''Patch::Module''] (Some ''Patch'') ''Extended''
         (init [shared_ptr ''UnitEx''])]"
    by (simp add: derived_from_def binding_defs)
  have abstract:
    "map py_name (filter (\<lambda>c. \<not> constructible c) (classes (mididings_module t)))
       = [''Module'', ''Unit'', ''UnitEx'', ''Filter'']"
    by (simp add: binding_defs)
  show ?thesis
    unfolding derived using abstract by (simp add: plain_class_def)
qed

text \<open>
  C8: the control units are constructed with the parameters the spec names. A
  SceneSwitch created through the interface from two integers has the first as its
  scene target (offset or absolute) and the second as its subscene policy; a
  SubSceneSwitch created from two integers and a boolean has them as subscene target,
  subscene policy and init flag; a Call created from a Python object and two booleans
  has them as handler, run-async flag and expect-return-events flag. The registered
  parameter types are (int, int), (int, int, bool) and (object, bool, bool), all three
  classes derive from UnitEx, and a call with fewer arguments is refused.
\<close>

theorem control_unit_constructors:
  "construct (mididings_module t) ''SceneSwitch'' [v_int target, v_int policy]
     = Inr (obj_SceneSwitch
              \<lparr>scene_offset_or_absolute = target, scene_subscene_policy = policy\<rparr>)
   \<and> construct (mididings_module t) ''SubSceneSwitch'' [v_int target, v_int policy, v_bool flag]
     = Inr (obj_SubSceneSwitch
              \<lparr>subscene_offset_or_absolute = target, subscene_policy = policy,
               init_flag = flag\<rparr>)
   \<and> construct (mididings_module t) ''Call'' [v_object handler, v_bool run_async, v_bool expect]
     = Inr (obj_Call
              \<lparr>handler_reference = handler, run_async_flag = run_async,
               expect_return_events_flag = expect\<rparr>)
   \<and> construct (mididings_module t) ''SceneSwitch'' [v_int target] = Inl ArgumentError
   \<and> construct (mididings_module t) ''SubSceneSwitch'' [v_int target, v_int policy]
     = Inl ArgumentError
   \<and> construct (mididings_module t) ''Call'' [v_object handler, v_bool run_async]
     = Inl ArgumentError
   \<and> signature (mididings_module t) ''SceneSwitch'' = Some (init [int_t, int_t])
   \<and> signature (mididings_module t) ''SubSceneSwitch'' = Some (init [int_t, int_t, bool_t])
   \<and> signature (mididings_module t) ''Call'' = Some (init [bp_object, bool_t, bool_t])
   \<and> map_option bases (class_named (mididings_module t) ''SceneSwitch'') = Some [''UnitEx'']
   \<and> map_option bases (class_named (mididings_module t) ''SubSceneSwitch'') = Some [''UnitEx'']
   \<and> map_option bases (class_named (mididings_module t) ''Call'') = Some [''UnitEx'']"
proof -
  have scene: "class_named (mididings_module t) ''SceneSwitch''
      = Some (plain_class ''SceneSwitch'' [''UnitEx''] None ''SceneSwitch'' (init [int_t, int_t]))"
    by (simp add: class_named_def binding_defs)
  have subscene: "class_named (mididings_module t) ''SubSceneSwitch''
      = Some (plain_class ''SubSceneSwitch'' [''UnitEx''] None ''SubSceneSwitch''
                (init [int_t, int_t, bool_t]))"
    by (simp add: class_named_def binding_defs)
  have call: "class_named (mididings_module t) ''Call''
      = Some (plain_class ''Call'' [''UnitEx''] None ''Call'' (init [bp_object, bool_t, bool_t]))"
    by (simp add: class_named_def binding_defs)
  show ?thesis
    unfolding construct_def signature_def scene subscene call
    by (simp add: plain_class_def construct_wrapped_def SceneSwitch_init_def
        SubSceneSwitch_init_def Call_init_def)
qed

text \<open>
  C10: among all registered classes, MidiEvent is the only one that is not
  noncopyable and the only one with pickling enabled.
\<close>

theorem only_MidiEvent_copyable_and_pickleable:
  "map py_name (filter (\<lambda>c. \<not> noncopyable c) (classes (mididings_module t)))
     = [''MidiEvent'']
   \<and> map py_name (filter pickling (classes (mididings_module t))) = [''MidiEvent'']
   \<and> length (classes (mididings_module t)) = 37"
  by (simp add: binding_defs)

subsection \<open>Events\<close>

text \<open>
  C5: restoring an event from its flat field list gives the event back, whatever the
  length of its sysex payload.
\<close>

theorem deserialize_serialize:
  "deserialize (serialize e) = Some e"
  by (simp add: serialize_def)

text \<open>
  C6: the binding exposes \<open>==\<close> and \<open>!=\<close> on events; two events compare equal iff they
  agree on type, port, channel, data1, data2 and the sysex bytes, that is, iff they are
  the same record, and \<open>!=\<close> is the negation of \<open>==\<close>.
\<close>

theorem MidiEvent_equality_structural:
  "def_operator op_eq \<in> set (members MidiEvent_class)
   \<and> def_operator op_ne \<in> set (members MidiEvent_class)
   \<and> operator_eq a b = (a = b)
   \<and> operator_ne a b = (\<not> operator_eq a b)"
proof -
  have "operator_eq a b = (a = b)"
    by (cases a, cases b) (simp add: operator_eq_def)
  then show ?thesis
    by (simp add: operator_ne_def MidiEvent_class_def)
qed

section \<open>Properties of the scene switch notification\<close>

lemmas callback_defs =
  scene_switch_callback_def call_method_def scoped_gil_lock_def scoped_gil_lock_end_def
  PyErr_Print_def record_action_def Let_def

lemma held_after_append:
  "held_after held (xs @ ys) = held_after (held_after held xs) ys"
  by (induction held xs rule: held_after.induct) simp_all

lemma no_patch_under_lock_append:
  "no_patch_under_lock held (xs @ ys) =
     (no_patch_under_lock held xs \<and> no_patch_under_lock (held_after held xs) ys)"
  by (induction held xs rule: no_patch_under_lock.induct) simp_all

text \<open>What one notification adds to the log, and how it ends.\<close>

lemma callback_log:
  "log (snd (scene_switch_callback this scene subscene s)) =
     log s @ gil_acquire # py_call_method ''scene_switch_callback'' [scene, subscene] #
       (case self this ''scene_switch_callback'' of
          None \<Rightarrow> [err_print (AttributeError ''scene_switch_callback''), gil_release]
        | Some h \<Rightarrow>
            (case h [scene, subscene] of
               Returned \<Rightarrow> [gil_release]
             | Raises e \<Rightarrow> if e = SystemExit then [] else [err_print e, gil_release]))"
  by (simp add: callback_defs split: option.splits py_result.splits)

lemma callback_outcome:
  "fst (scene_switch_callback this scene subscene s) =
       (case self this ''scene_switch_callback'' of
          None \<Rightarrow> returns
        | Some h \<Rightarrow>
            (case h [scene, subscene] of
               Returned \<Rightarrow> returns
             | Raises e \<Rightarrow> if e = SystemExit then process_exit else returns))"
  by (simp add: callback_defs split: option.splits py_result.splits)

lemma callback_keeps_discipline:
  assumes "no_patch_under_lock False (log s)" and "\<not> held_after False (log s)"
  shows "no_patch_under_lock False (log (snd (scene_switch_callback this scene subscene s)))"
    and "fst (scene_switch_callback this scene subscene s) = returns \<Longrightarrow>
           \<not> held_after False (log (snd (scene_switch_callback this scene subscene s)))"
  using assms
  by (auto simp add: callback_log callback_outcome no_patch_under_lock_append held_after_append
      split: option.splits py_result.splits if_splits)

lemma process_keeps_discipline:
  assumes "no_patch_under_lock False (log s)" and "\<not> held_after False (log s)"
  shows "no_patch_under_lock False (log (snd (snd (snd (process this scenes ev st s)))))
     \<and> (fst (process this scenes ev st s) = returns \<longrightarrow>
           \<not> held_after False (log (snd (snd (snd (process this scenes ev st s))))))"
proof (cases "processing_enabled st")
  case False
  with assms show ?thesis by (simp add: process_def)
next
  case enabled: True
  show ?thesis
  proof (cases "scenes (current_scene st)")
    case None
    with enabled assms show ?thesis by (simp add: process_def)
  next
    case (Some sc)
    obtain out switch where ev: "scene_patch sc ev = (out, switch)"
      by (cases "scene_patch sc ev")
    let ?s1 = "record_action (patch_evaluate (current_scene st)) s"
    have s1: "no_patch_under_lock False (log ?s1)" "\<not> held_after False (log ?s1)"
      using assms
      by (simp_all add: record_action_def no_patch_under_lock_append held_after_append)
    show ?thesis
    proof (cases switch)
      case None
      with enabled Some ev s1 show ?thesis by (simp add: process_def)
    next
      case sw: (Some p)
      obtain n sub where p: "p = (n, sub)" by (cases p)
      show ?thesis
      proof (cases "scenes n")
        case None
        with enabled Some ev s1 sw p show ?thesis by (simp add: process_def)
      next
        case tgt: (Some target)
        let ?s2 = "case scene_init_patch target of None \<Rightarrow> ?s1
                   | Some evs \<Rightarrow> record_action (patch_evaluate n) ?s1"
        have s2: "no_patch_under_lock False (log ?s2)" "\<not> held_after False (log ?s2)"
          using s1
          by (simp_all add: record_action_def no_patch_under_lock_append held_after_append
              split: option.splits)
        have proc: "process this scenes ev st s =
            (fst (scene_switch_callback this n sub ?s2),
             out @ (case scene_init_patch target of None \<Rightarrow> [] | Some evs \<Rightarrow> evs),
             st\<lparr>current_scene := n, current_subscene := sub\<rparr>,
             snd (scene_switch_callback this n sub ?s2))"
          using enabled Some ev sw p tgt
          by (simp add: process_def Let_def split: option.splits prod.splits)
        show ?thesis
          unfolding proc using callback_keeps_discipline [OF s2] by simp
      qed
    qed
  qed
qed

subsection \<open>The control lock\<close>

text \<open>
  C2: every notification takes the control lock immediately before the call into
  Python, and when that call returns the lock is released immediately after it, with
  nothing in between. On the dispatch path, starting with the lock not held and no
  patch evaluated under it so far, processing an event never evaluates a patch while
  the lock is held, and when processing returns the lock is not held.
\<close>

theorem control_lock_discipline:
  assumes "no_patch_under_lock False (log s)" and "\<not> held_after False (log s)"
  shows
    "take 2 (drop (length (log s)) (log (snd (scene_switch_callback this scene subscene s))))
       = [gil_acquire, py_call_method ''scene_switch_callback'' [scene, subscene]]
     \<and> (self this ''scene_switch_callback'' = Some handler
          \<and> handler [scene, subscene] = Returned \<longrightarrow>
        scene_switch_callback this scene subscene s =
          (returns,
           s\<lparr>log := log s @ [gil_acquire,
                              py_call_method ''scene_switch_callback'' [scene, subscene],
                              gil_release]\<rparr>))
     \<and> no_patch_under_lock False (log (snd (snd (snd (process this scenes ev st s)))))
     \<and> (fst (process this scenes ev st s) = returns \<longrightarrow>
          \<not> held_after False (log (snd (snd (snd (process this scenes ev st s))))))"
proof -
  have first: "take 2 (drop (length (log s))
        (log (snd (scene_switch_callback this scene subscene s))))
       = [gil_acquire, py_call_method ''scene_switch_callback'' [scene, subscene]]"
    by (simp add: callback_log)
  have bracket: "self this ''scene_switch_callback'' = Some handler
          \<and> handler [scene, subscene] = Returned \<longrightarrow>
        scene_switch_callback this scene subscene s =
          (returns,
           s\<lparr>log := log s @ [gil_acquire,
                              py_call_method ''scene_switch_callback'' [scene, subscene],
                              gil_release]\<rparr>)"
    by (simp add: callback_defs)
  from first bracket process_keeps_discipline [OF assms] show ?thesis by blast
qed

theorem control_lock_discipline_witness:
  "no_patch_under_lock False (log \<lparr>error_indicator = None, log = []\<rparr>)
   \<and> \<not> held_after False (log \<lparr>error_indicator = None, log = []\<rparr>)
   \<and> self (EngineWrap_init [''scene_switch_callback'' \<mapsto> (\<lambda>args. Returned)]
            ''alsa'' ''mididings'' [''in''] [''out''] False) ''scene_switch_callback''
       = Some (\<lambda>args. Returned)
   \<and> fst (process
        (EngineWrap_init [''scene_switch_callback'' \<mapsto> (\<lambda>args. Returned)]
           ''alsa'' ''mididings'' [''in''] [''out''] False)
        [0 \<mapsto> \<lparr>scene_patch = (\<lambda>e. ([e], Some (1, 0))), scene_init_patch = None\<rparr>,
         1 \<mapsto> \<lparr>scene_patch = (\<lambda>e. ([e], None)), scene_init_patch = Some []\<rparr>]
        \<lparr>type = 1 :: nat, port = 0, channel = 0, data1 = 60, data2 = 100, sysex = []\<rparr>
        \<lparr>current_scene = 0, current_subscene = 0, processing_enabled = True\<rparr>
        \<lparr>error_indicator = None, log = []\<rparr>) = returns
   \<and> log (snd (snd (snd (process
        (EngineWrap_init [''scene_switch_callback'' \<mapsto> (\<lambda>args. Returned)]
           ''alsa'' ''mididings'' [''in''] [''out''] False)
        [0 \<mapsto> \<lparr>scene_patch = (\<lambda>e. ([e], Some (1, 0))), scene_init_patch = None\<rparr>,
         1 \<mapsto> \<lparr>scene_patch = (\<lambda>e. ([e], None)), scene_init_patch = Some []\<rparr>]
        \<lparr>type = 1 :: nat, port = 0, channel = 0, data1 = 60, data2 = 100, sysex = []\<rparr>
        \<lparr>current_scene = 0, current_subscene = 0, processing_enabled = True\<rparr>
        \<lparr>error_indicator = None, log = []\<rparr>))))
       = [patch_evaluate 0, patch_evaluate 1, gil_acquire,
          py_call_method ''scene_switch_callback'' [1, 0], gil_release]
   \<and> \<not> held_after False (log (snd (snd (snd (process
        (EngineWrap_init [''scene_switch_callback'' \<mapsto> (\<lambda>args. Returned)]
           ''alsa'' ''mididings'' [''in''] [''out''] False)
        [0 \<mapsto> \<lparr>scene_patch = (\<lambda>e. ([e], Some (1, 0))), scene_init_patch = None\<rparr>,
         1 \<mapsto> \<lparr>scene_patch = (\<lambda>e. ([e], None)), scene_init_patch = Some []\<rparr>]
        \<lparr>type = 1 :: nat, port = 0, channel = 0, data1 = 60, data2 = 100, sysex = []\<rparr>
        \<lparr>current_scene = 0, current_subscene = 0, processing_enabled = True\<rparr>
        \<lparr>error_indicator = None, log = []\<rparr>)))))
   \<and> scene_switch_callback
        (EngineWrap_init [''scene_switch_callback'' \<mapsto> (\<lambda>args. Returned)]
           ''alsa'' ''mididings'' [''in''] [''out''] False)
        1 0 \<lparr>error_indicator = None, log = []\<rparr>
       = (returns,
          \<lparr>error_indicator = None,
           log = [gil_acquire, py_call_method ''scene_switch_callback'' [1, 0], gil_release]\<rparr>)"
proof -
  let ?s = "\<lparr>error_indicator = None, log = []\<rparr>"
  let ?h = "\<lambda>args :: int list. Returned"
  let ?w = "EngineWrap_init [''scene_switch_callback'' \<mapsto> ?h]
              ''alsa'' ''mididings'' [''in''] [''out''] False"
  let ?scenes = "[0 \<mapsto> \<lparr>scene_patch = (\<lambda>e. ([e], Some (1, 0))), scene_init_patch = None\<rparr>,
         1 \<mapsto> \<lparr>scene_patch = (\<lambda>e :: nat MidiEvent. ([e], None)), scene_init_patch = Some []\<rparr>]"
  let ?ev = "\<lparr>type = 1 :: nat, port = 0, channel = 0, data1 = 60, data2 = 100, sysex = []\<rparr>"
  let ?st = "\<lparr>current_scene = 0, current_subscene = 0, processing_enabled = True\<rparr>"
  have clean: "no_patch_under_lock False (log ?s)" by simp
  have free: "\<not> held_after False (log ?s)" by simp
  have found: "self ?w ''scene_switch_callback'' = Some ?h"
    by (simp add: EngineWrap_init_def)
  have run: "process ?w ?scenes ?ev ?st ?s =
      (returns, [?ev], \<lparr>current_scene = 1, current_subscene = 0, processing_enabled = True\<rparr>,
       \<lparr>error_indicator = None,
        log = [patch_evaluate 0, patch_evaluate 1, gil_acquire,
               py_call_method ''scene_switch_callback'' [1, 0], gil_release]\<rparr>)"
    by (simp add: process_def callback_defs EngineWrap_init_def)
  from control_lock_discipline [OF clean free, where this = ?w and scene = 1 and subscene = 0
      and handler = ?h and scenes = ?scenes and ev = ?ev and st = ?st]
  show ?thesis using found run by simp
qed

subsection \<open>Exceptions raised by the notified method\<close>

text \<open>
  C9, as stated, fails for SystemExit: the wrapper catches the error and calls
  \<open>PyErr_Print\<close>, which ends the process; nothing is printed, the wrapper does not
  return, and the lock is not released.
\<close>

theorem callback_exception_counterexample:
  "scene_switch_callback
     (EngineWrap_init [''scene_switch_callback'' \<mapsto> (\<lambda>args. Raises SystemExit)]
        ''alsa'' ''mididings'' [''in''] [''out''] False)
     3 1 \<lparr>error_indicator = None, log = []\<rparr>
   = (process_exit,
      \<lparr>error_indicator = Some SystemExit,
       log = [gil_acquire, py_call_method ''scene_switch_callback'' [3, 1]]\<rparr>)"
  by (simp add: callback_defs EngineWrap_init_def)

text \<open>
  C9, amended: when the Python method \<open>scene_switch_callback\<close> of the engine object
  raises an exception other than SystemExit, the wrapper catches it, prints it and
  returns, with no Python error left pending and the lock released; when it raises
  SystemExit, the wrapper catches it and the process ends inside \<open>PyErr_Print\<close>. In no
  case does a C++ exception leave the wrapper.
\<close>

theorem callback_exception_caught:
  assumes "self this ''scene_switch_callback'' = Some handler"
      and "handler [scene, subscene] = Raises e"
  shows "scene_switch_callback this scene subscene s =
           (if e = SystemExit then
              (process_exit,
               s\<lparr>error_indicator := Some SystemExit,
                 log := log s @ [gil_acquire,
                                 py_call_method ''scene_switch_callback'' [scene, subscene]]\<rparr>)
            else
              (returns,
               s\<lparr>error_indicator := None,
                 log := log s @ [gil_acquire,
                                 py_call_method ''scene_switch_callback'' [scene, subscene],
                                 err_print e,
                                 gil_release]\<rparr>))
         \<and> (\<forall>x. fst (scene_switch_callback this scene subscene s) \<noteq> throws x)"
  using assms by (simp add: callback_defs)

theorem callback_exception_caught_witness:
  "self (EngineWrap_init [''scene_switch_callback'' \<mapsto> (\<lambda>args. Raises (Exception ''ValueError''))]
           ''alsa'' ''mididings'' [''in''] [''out''] False) ''scene_switch_callback''
     = Some (\<lambda>args. Raises (Exception ''ValueError''))
   \<and> (\<lambda>args. Raises (Exception ''ValueError'')) [3, 1] = Raises (Exception ''ValueError'')
   \<and> scene_switch_callback
       (EngineWrap_init [''scene_switch_callback'' \<mapsto> (\<lambda>args. Raises (Exception ''ValueError''))]
          ''alsa'' ''mididings'' [''in''] [''out''] False)
       3 1 \<lparr>error_indicator = None, log = []\<rparr>
     = (returns,
        \<lparr>error_indicator = None,
         log = [gil_acquire, py_call_method ''scene_switch_callback'' [3, 1],
                err_print (Exception ''ValueError''), gil_release]\<rparr>)"
proof -
  let ?h = "\<lambda>args :: int list. Raises (Exception ''ValueError'')"
  let ?w = "EngineWrap_init [''scene_switch_callback'' \<mapsto> ?h]
              ''alsa'' ''mididings'' [''in''] [''out''] False"
  have found: "self ?w ''scene_switch_callback'' = Some ?h"
    by (simp add: EngineWrap_init_def)
  have raises: "?h [3, 1] = Raises (Exception ''ValueError'')"
    by simp
  from callback_exception_caught [OF found raises, where s = "\<lparr>error_indicator = None, log = []\<rparr>"]
  show ?thesis using found by simp
qed

subsection \<open>Where the handler comes from\<close>

text \<open>
  C3, as stated, fails: the wrapper holds no handler of its own and none is
  registered. For an engine object created from the exposed class as it is, the
  notification looks up \<open>scene_switch_callback\<close> on the object, finds nothing and ends in
  a printed AttributeError; the same constructor call for an engine object that
  carries an attribute of that name reaches that attribute.
\<close>

theorem callback_registration_counterexample:
  "scene_switch_callback
     (EngineWrap_init (instance_of (Engine_class False) (\<lambda>n args. Returned) Map.empty)
        ''alsa'' ''mididings'' [''in''] [''out''] False)
     2 0 \<lparr>error_indicator = None, log = []\<rparr>
   = (returns,
      \<lparr>error_indicator = None,
       log = [gil_acquire, py_call_method ''scene_switch_callback'' [2, 0],
              err_print (AttributeError ''scene_switch_callback''), gil_release]\<rparr>)
   \<and> scene_switch_callback
     (EngineWrap_init
        (instance_of (Engine_class False) (\<lambda>n args. Returned)
           [''scene_switch_callback'' \<mapsto>
              (\<lambda>args. if args = [2, 0] then Returned else Raises (Exception ''TypeError''))])
        ''alsa'' ''mididings'' [''in''] [''out''] False)
     2 0 \<lparr>error_indicator = None, log = []\<rparr>
   = (returns,
      \<lparr>error_indicator = None,
       log = [gil_acquire, py_call_method ''scene_switch_callback'' [2, 0], gil_release]\<rparr>)"
  by (simp add: callback_defs EngineWrap_init_def instance_of_def Engine_class_def)

text \<open>
  C3, amended: the engine wrapper holds a reference to its own Python object, received
  by its constructor, and no handler besides. It delivers the notification by calling
  the attribute named \<open>scene_switch_callback\<close> of that object, looked up at each
  notification: an object without the attribute gets an AttributeError printed; an
  object with it has it called with scene and subscene. The exposed \<open>Engine\<close> class is
  held as \<open>EngineWrap\<close>, has no handler among its constructor parameters, and its
  members are the engine operations only, so an engine object created from the class as
  it is lacks the attribute, and one for which Python code supplies the attribute (in
  a subclass or on the instance) has it.
\<close>

theorem callback_dispatched_on_self:
  "held_type (Engine_class t) = Some ''EngineWrap''
   \<and> bp_object \<notin> set (init_args (ctor (Engine_class t)))
   \<and> map member_name (members (Engine_class t))
       = [''connect_ports'', ''add_scene'', ''set_processing'', ''start'', ''switch_scene'',
          ''current_scene'', ''current_subscene'', ''output_event'', ''time'']
         @ (if t then [''process''] else [])
   \<and> instance_of (Engine_class t) bound Map.empty ''scene_switch_callback'' = None
   \<and> instance_of (Engine_class t) bound [''scene_switch_callback'' \<mapsto> f]
        ''scene_switch_callback'' = Some f
   \<and> self (EngineWrap_init obj bn cn ip op v) = obj
   \<and> scene_switch_callback (EngineWrap_init obj bn cn ip op v) scene subscene s
       = (case obj ''scene_switch_callback'' of
            None \<Rightarrow>
              (returns,
               s\<lparr>error_indicator := None,
                 log := log s @ [gil_acquire,
                                 py_call_method ''scene_switch_callback'' [scene, subscene],
                                 err_print (AttributeError ''scene_switch_callback''),
                                 gil_release]\<rparr>)
          | Some handler \<Rightarrow>
              (case handler [scene, subscene] of
                 Returned \<Rightarrow>
                   (returns,
                    s\<lparr>log := log s @ [gil_acquire,
                                       py_call_method ''scene_switch_callback'' [scene, subscene],
                                       gil_release]\<rparr>)
               | Raises e \<Rightarrow>
                   if e = SystemExit then
                     (process_exit,
                      s\<lparr>error_indicator := Some SystemExit,
                        log := log s @ [gil_acquire,
                                        py_call_method ''scene_switch_callback''
                                          [scene, subscene]]\<rparr>)
                   else
                     (returns,
                      s\<lparr>error_indicator := None,
                        log := log s @ [gil_acquire,
                                        py_call_method ''scene_switch_callback''
                                          [scene, subscene],
                                        err_print e,
                                        gil_release]\<rparr>)))"
proof -
  have names: "map member_name (members (Engine_class t))
       = [''connect_ports'', ''add_scene'', ''set_processing'', ''start'', ''switch_scene'',
          ''current_scene'', ''current_subscene'', ''output_event'', ''time'']
         @ (if t then [''process''] else [])"
    by (simp add: Engine_class_def)
  have binding: "held_type (Engine_class t) = Some ''EngineWrap''
      \<and> bp_object \<notin> set (init_args (ctor (Engine_class t)))"
    by (simp add: Engine_class_def)
  have plain: "instance_of (Engine_class t) bound Map.empty ''scene_switch_callback'' = None"
    unfolding instance_of_def names by simp
  have supplied: "instance_of (Engine_class t) bound [''scene_switch_callback'' \<mapsto> f]
        ''scene_switch_callback'' = Some f"
    by (simp add: instance_of_def)
  have held: "self (EngineWrap_init obj bn cn ip op v) = obj"
    by (simp add: EngineWrap_init_def)
  have dispatch: "scene_switch_callback (EngineWrap_init obj bn cn ip op v) scene subscene s
       = (case obj ''scene_switch_callback'' of
            None \<Rightarrow>
              (returns,
               s\<lparr>error_indicator := None,
                 log := log s @ [gil_acquire,
                                 py_call_method ''scene_switch_callback'' [scene, subscene],
                                 err_print (AttributeError ''scene_switch_callback''),
                                 gil_release]\<rparr>)
          | Some handler \<Rightarrow>
              (case handler [scene, subscene] of
                 Returned \<Rightarrow>
                   (returns,
                    s\<lparr>log := log s @ [gil_acquire,
                                       py_call_method ''scene_switch_callback'' [scene, subscene],
                                       gil_release]\<rparr>)
               | Raises e \<Rightarrow>
                   if e = SystemExit then
                     (process_exit,
                      s\<lparr>error_indicator := Some SystemExit,
                        log := log s @ [gil_acquire,
                                        py_call_method ''scene_switch_callback''
                                          [scene, subscene]]\<rparr>)
                   else
                     (returns,
                      s\<lparr>error_indicator := None,
                        log := log s @ [gil_acquire,
                                        py_call_method ''scene_switch_callback''
                                          [scene, subscene],
                                        err_print e,
                                        gil_release]\<rparr>)))"
    by (simp add: callback_defs held split: option.splits py_result.splits)
  from binding names plain supplied held dispatch show ?thesis by blast
qed

end
